theory Spec2Isabelle
  imports Complex_Main
begin

section \<open>Text of the scraped pages\<close>

text \<open>
  The text inside the scraped pages is modelled as a \<open>string\<close> whose characters are
  the code points below 256.  On this range \<open>str.strip\<close> without argument removes the
  characters for which \<open>str.isspace\<close> holds: U+0009 to U+000D, U+001C to U+0020,
  U+0085 and U+00A0.
\<close>

definition isspace :: "char \<Rightarrow> bool" where
  "isspace c =
     (let n = (of_char c :: nat)
      in (9 \<le> n \<and> n \<le> 13) \<or> (28 \<le> n \<and> n \<le> 32) \<or> n = 133 \<or> n = 160)"

definition strip :: "string \<Rightarrow> string" where
  "strip s = rev (dropWhile isspace (rev (dropWhile isspace s)))"

text \<open>
  \<open>str.split\<close> without argument: the maximal runs of non-whitespace characters, in
  order.  The first argument holds the run being read.
\<close>

fun split_run :: "string \<Rightarrow> string \<Rightarrow> string list" where
  "split_run cur [] = (if cur = [] then [] else [cur])"
| "split_run cur (c # cs) =
     (if isspace c then (if cur = [] then split_run [] cs else cur # split_run [] cs)
      else split_run (cur @ [c]) cs)"

definition split :: "string \<Rightarrow> string list" where
  "split s = split_run [] s"

fun join :: "string \<Rightarrow> string list \<Rightarrow> string" where
  "join sep [] = []"
| "join sep [x] = x"
| "join sep (x # y # ys) = x @ sep @ join sep (y # ys)"

section \<open>Exceptions\<close>

text \<open>
  A subscript is an integer or a string.  Every exception the handlers can raise is a
  value; \<open>HTTPException\<close> is the one way the framework offers a handler to answer with
  a chosen status code (the module imports it).
\<close>

datatype index = Idx int | Key string

datatype error =
    KeyError index
  | IndexError
  | TypeError
  | AttributeError
  | ValueError
  | HTTPException nat

definition and_then :: "error + 'a \<Rightarrow> ('a \<Rightarrow> error + 'b) \<Rightarrow> error + 'b" where
  "and_then r f = (case r of Inl e \<Rightarrow> Inl e | Inr v \<Rightarrow> f v)"

text \<open>\<open>try: x = r  except AttributeError: x = d\<close>; any other exception passes through.\<close>

definition except_AttributeError :: "error + 'a \<Rightarrow> 'a \<Rightarrow> error + 'a" where
  "except_AttributeError r d =
     (case r of Inl e \<Rightarrow> (if e = AttributeError then Inr d else Inl e) | Inr v \<Rightarrow> Inr v)"

text \<open>
  \<open>for x in xs: acc.append(f(x))\<close>, where the call may raise: the loop stops at the
  first exception and the list built so far is lost.
\<close>

fun for_append :: "('a \<Rightarrow> error + 'b) \<Rightarrow> 'a list \<Rightarrow> 'b list \<Rightarrow> error + 'b list" where
  "for_append f [] acc = Inr acc"
| "for_append f (x # xs) acc =
     (case f x of Inl e \<Rightarrow> Inl e | Inr y \<Rightarrow> for_append f xs (acc @ [y]))"

section \<open>Decoded JSON\<close>

text \<open>
  What \<open>response.json()\<close> returns: \<open>None\<close>, a bool, an int, a float, a str, a list or a
  dict with string keys.  The float type is left open.  A dict is the list of its
  items, each key once, read by \<open>map_of\<close>.
\<close>

datatype 'f json =
    JNull
  | JBool bool
  | JInt int
  | JFloat 'f
  | JStr string
  | JArr "'f json list"
  | JObj "(string \<times> 'f json) list"

text \<open>
  Python's \<open>v[k]\<close>.  A list or a str takes an integer (negative ones count from the end)
  and raises IndexError out of range; a dict raises KeyError for a key it does not
  hold; a wrong kind of subscript, or a value that has no subscript, is a TypeError.
\<close>

definition sequence_item :: "'a list \<Rightarrow> int \<Rightarrow> 'a option" where
  "sequence_item xs i =
     (if 0 \<le> i
      then (if nat i < length xs then Some (xs ! nat i) else None)
      else (if nat (- i) \<le> length xs then Some (xs ! (length xs - nat (- i))) else None))"

fun getitem :: "'f json \<Rightarrow> index \<Rightarrow> error + 'f json" where
  "getitem (JObj items) (Key k) =
     (case map_of items k of None \<Rightarrow> Inl (KeyError (Key k)) | Some v \<Rightarrow> Inr v)"
| "getitem (JObj items) (Idx i) = Inl (KeyError (Idx i))"
| "getitem (JArr xs) (Idx i) =
     (case sequence_item xs i of None \<Rightarrow> Inl IndexError | Some v \<Rightarrow> Inr v)"
| "getitem (JStr s) (Idx i) =
     (case sequence_item s i of None \<Rightarrow> Inl IndexError | Some c \<Rightarrow> Inr (JStr [c]))"
| "getitem v k = Inl TypeError"

text \<open>A chain of subscripts \<open>v[k1][k2]...\<close>, evaluated left to right.\<close>

fun getpath :: "'f json \<Rightarrow> index list \<Rightarrow> error + 'f json" where
  "getpath v [] = Inr v"
| "getpath v (k # ks) = and_then (getitem v k) (\<lambda>w. getpath w ks)"

section \<open>Weather extractor\<close>

record 'f weather_report =
  Date :: string
  Description :: "'f json"
  Temperature :: string
  High_Today :: string
  Low_Today :: string
  Humidity :: string
  Wind_Speed :: string
  Feels_Like :: string
  Pressure :: string

definition degrees :: string where
  "degrees = [CHR '' '', CHR ''F'', CHR 0xB0]"

text \<open>
  \<open>current_weather\<close> from the decoded payload on.  \<open>str\<close> is Python's conversion of a
  value to text and \<open>today\<close> the formatted date of the call; both come from outside
  the module.  The entries of the returned dict are evaluated in the order written.
\<close>

definition current_weather ::
  "('f json \<Rightarrow> string) \<Rightarrow> string \<Rightarrow> 'f json \<Rightarrow> error + 'f weather_report" where
  "current_weather str today data =
     and_then (getitem data (Key ''main'')) (\<lambda>main.
     and_then (getpath data [Key ''weather'', Idx 0, Key ''description'']) (\<lambda>description.
     and_then (getitem main (Key ''temp'')) (\<lambda>temp.
     and_then (getitem main (Key ''temp_max'')) (\<lambda>temp_max.
     and_then (getitem main (Key ''temp_min'')) (\<lambda>temp_min.
     and_then (getitem main (Key ''humidity'')) (\<lambda>humidity.
     and_then (getpath data [Key ''wind'', Key ''speed'']) (\<lambda>speed.
     and_then (getitem main (Key ''feels_like'')) (\<lambda>feels_like.
     and_then (getitem main (Key ''pressure'')) (\<lambda>pressure.
     Inr \<lparr>Date = today,
          Description = description,
          Temperature = str temp @ degrees,
          High_Today = str temp_max @ degrees,
          Low_Today = str temp_min @ degrees,
          Humidity = str humidity @ ''%'',
          Wind_Speed = str speed @ '' mph'',
          Feels_Like = str feels_like @ degrees,
          Pressure = str pressure @ '' hPa''\<rparr>)))))))))"

text \<open>
  The keys the handler reads: \<open>main\<close> with its six fields, \<open>weather[0].description\<close>
  and \<open>wind.speed\<close>.
\<close>

definition reads_ok :: "'f json \<Rightarrow> index list \<Rightarrow> bool" where
  "reads_ok data path = (case getpath data path of Inl e \<Rightarrow> False | Inr v \<Rightarrow> True)"

definition expected_keys_present :: "'f json \<Rightarrow> bool" where
  "expected_keys_present data =
     (reads_ok data [Key ''main''] \<and>
      reads_ok data [Key ''weather'', Idx 0, Key ''description''] \<and>
      reads_ok data [Key ''main'', Key ''temp''] \<and>
      reads_ok data [Key ''main'', Key ''temp_max''] \<and>
      reads_ok data [Key ''main'', Key ''temp_min''] \<and>
      reads_ok data [Key ''main'', Key ''humidity''] \<and>
      reads_ok data [Key ''wind'', Key ''speed''] \<and>
      reads_ok data [Key ''main'', Key ''feels_like''] \<and>
      reads_ok data [Key ''main'', Key ''pressure''])"

text \<open>The reads in the order in which the handler evaluates them.\<close>

definition expected_reads :: "index list list" where
  "expected_reads =
     [[Key ''main''],
      [Key ''weather'', Idx 0, Key ''description''],
      [Key ''main'', Key ''temp''],
      [Key ''main'', Key ''temp_max''],
      [Key ''main'', Key ''temp_min''],
      [Key ''main'', Key ''humidity''],
      [Key ''wind'', Key ''speed''],
      [Key ''main'', Key ''feels_like''],
      [Key ''main'', Key ''pressure'']]"

text \<open>The first exception in a sequence of results, if there is one.\<close>

fun first_error :: "(error + 'a) list \<Rightarrow> error option" where
  "first_error [] = None"
| "first_error (r # rs) = (case r of Inl e \<Rightarrow> Some e | Inr v \<Rightarrow> first_error rs)"

section \<open>Rental listings extractor\<close>

record 'f rental =
  Latitude :: "'f json"
  Longitude :: "'f json"
  Street_Address :: "'f json"
  City :: "'f json"
  State :: "'f json"
  Bedrooms :: "'f json"
  Bathrooms :: "'f json"
  Cats_Allowed :: "'f json"
  Dogs_Allowed :: "'f json"
  List_Price :: "'f json"
  Ammenities :: "'f json"
  Photos :: "'f json"

text \<open>
  The body of the loop of \<open>rental_listing\<close> at index \<open>i\<close>; \<open>response\<close> is the value of
  \<open>data.results\<close>.  Each statement subscripts \<open>response\<close> anew, as the source does.
\<close>

definition rental_elements :: "'f json \<Rightarrow> nat \<Rightarrow> error + 'f rental" where
  "rental_elements response i =
     and_then (getpath response
       [Idx (int i), Key ''location'', Key ''address'', Key ''coordinate'', Key ''lat'']) (\<lambda>lat.
     and_then (getpath response
       [Idx (int i), Key ''location'', Key ''address'', Key ''coordinate'', Key ''lon'']) (\<lambda>lon.
     and_then (getpath response
       [Idx (int i), Key ''location'', Key ''address'', Key ''line'']) (\<lambda>line.
     and_then (getpath response
       [Idx (int i), Key ''location'', Key ''address'', Key ''city'']) (\<lambda>city.
     and_then (getpath response
       [Idx (int i), Key ''location'', Key ''address'', Key ''state'']) (\<lambda>state.
     and_then (getpath response [Idx (int i), Key ''pet_policy'']) (\<lambda>pet_policy.
     and_then (except_AttributeError
       (getpath response [Idx (int i), Key ''description'', Key ''baths_max'']) (JInt 0)) (\<lambda>baths.
     and_then (except_AttributeError
       (getpath response [Idx (int i), Key ''description'', Key ''beds_max'']) (JInt 0)) (\<lambda>bedrooms.
     and_then (if pet_policy \<noteq> JNull
               then getpath response [Idx (int i), Key ''pet_policy'', Key ''cats'']
               else Inr (JStr ''Unknown'')) (\<lambda>cats_allowed.
     and_then (if pet_policy \<noteq> JNull
               then getpath response [Idx (int i), Key ''pet_policy'', Key ''dogs'']
               else Inr (JStr ''Unknown'')) (\<lambda>dogs_allowed.
     and_then (getpath response [Idx (int i), Key ''list_price_max'']) (\<lambda>list_price.
     and_then (except_AttributeError
       (getpath response [Idx (int i), Key ''tags'']) (JArr [])) (\<lambda>ammenities.
     and_then (except_AttributeError
       (getpath response [Idx (int i), Key ''photos'']) JNull) (\<lambda>photos.
     Inr \<lparr>Latitude = lat,
          Longitude = lon,
          Street_Address = line,
          City = city,
          State = state,
          Bedrooms = bedrooms,
          Bathrooms = baths,
          Cats_Allowed = cats_allowed,
          Dogs_Allowed = dogs_allowed,
          List_Price = list_price,
          Ammenities = ammenities,
          Photos = photos\<rparr>)))))))))))))"

text \<open>\<open>for i in range(limit)\<close>: no index when \<open>limit\<close> is zero or negative.\<close>

definition rental_listing :: "int \<Rightarrow> 'f json \<Rightarrow> error + 'f rental list" where
  "rental_listing limit response =
     for_append (rental_elements response) [0..<nat limit] []"

section \<open>Parsed HTML\<close>

text \<open>
  The tree the HTML parser builds: a tag has a name, a dict of attributes and its
  children in document order; the leaves are strings.  The parser splits the value
  of \<open>class\<close> at whitespace into a list, every other attribute used here is one
  string.  The parsed document itself is a tag whose children are the top-level
  nodes.
\<close>

datatype attr = AStr string | AList "string list"

datatype node =
    Tag string "(string \<times> attr) list" "node list"
  | NavigableString string

text \<open>All nodes below a node, in document order.\<close>

fun descendants :: "node \<Rightarrow> node list" where
  "descendants (Tag name attrs contents) = concat (map (\<lambda>c. c # descendants c) contents)"
| "descendants (NavigableString s) = []"

text \<open>\<open>.text\<close>: the strings below the node, concatenated.\<close>

fun get_text :: "node \<Rightarrow> string" where
  "get_text (Tag name attrs contents) = concat (map get_text contents)"
| "get_text (NavigableString s) = s"

text \<open>
  How the library compares an attribute's value with the string searched for: a
  missing attribute matches only the empty string; a list matches when one of its
  items is the string or when its items joined by spaces are.
\<close>

fun attr_matches :: "attr option \<Rightarrow> string \<Rightarrow> bool" where
  "attr_matches None match_against = (match_against = [])"
| "attr_matches (Some (AStr v)) match_against = (v = match_against)"
| "attr_matches (Some (AList items)) match_against =
     (match_against \<in> set items \<or> join '' '' items = match_against)"

fun search_tag :: "string \<Rightarrow> (string \<times> string) list \<Rightarrow> node \<Rightarrow> bool" where
  "search_tag name attrs (Tag n markup_attrs contents) =
     (n = name \<and>
      list_all (\<lambda>(a, match_against). attr_matches (map_of markup_attrs a) match_against) attrs)"
| "search_tag name attrs (NavigableString s) = False"

text \<open>
  \<open>find_all(name, attrs)\<close> searches the descendants; a string given for \<open>attrs\<close> stands
  for \<open>{'class': string}\<close>.  \<open>find\<close> returns the first result or \<open>None\<close>.
\<close>

definition find_all :: "node \<Rightarrow> string \<Rightarrow> (string \<times> string) list \<Rightarrow> node list" where
  "find_all soup name attrs = filter (search_tag name attrs) (descendants soup)"

definition find_first :: "node \<Rightarrow> string \<Rightarrow> (string \<times> string) list \<Rightarrow> node option" where
  "find_first soup name attrs =
     (case find_all soup name attrs of [] \<Rightarrow> None | r # rs \<Rightarrow> Some r)"

text \<open>
  Attribute access on what \<open>find\<close> returned.  On \<open>None\<close> each raises AttributeError.
  \<open>tag.h2\<close> is \<open>tag.find('h2')\<close>; a string has neither child tags nor \<open>get\<close>.
\<close>

fun child_tag :: "node option \<Rightarrow> string \<Rightarrow> error + node option" where
  "child_tag None name = Inl AttributeError"
| "child_tag (Some (NavigableString s)) name = Inl AttributeError"
| "child_tag (Some t) name = Inr (find_first t name [])"

fun get :: "node option \<Rightarrow> string \<Rightarrow> error + attr option" where
  "get None key = Inl AttributeError"
| "get (Some (NavigableString s)) key = Inl AttributeError"
| "get (Some (Tag name attrs contents)) key = Inr (map_of attrs key)"

fun text_strip :: "node option \<Rightarrow> error + string" where
  "text_strip None = Inl AttributeError"
| "text_strip (Some t) = Inr (strip (get_text t))"

text \<open>\<open>'literal' + v\<close> for what \<open>get\<close> returned: only a str can be appended to a str.\<close>

fun str_add :: "string \<Rightarrow> attr option \<Rightarrow> error + string" where
  "str_add s (Some (AStr v)) = Inr (s @ v)"
| "str_add s v = Inl TypeError"

section \<open>Job listings extractor\<close>

record job_record =
  Job_Title :: "attr option"
  Company :: string
  Location :: "attr option"
  Date_Posted :: string
  Extract_Date :: string
  Job_Description :: string
  Salary :: string
  Job_Url :: string

text \<open>
  \<open>get_record\<close>; \<open>today\<close> is the formatted date of the call.  The statements run in the
  order of the source, and only the salary lookup sits in a \<open>try\<close>.
\<close>

definition get_record :: "string \<Rightarrow> node \<Rightarrow> error + job_record" where
  "get_record today card' =
     and_then (child_tag (Some card') ''h2'') (\<lambda>h2.
     and_then (child_tag h2 ''a'') (\<lambda>atag.
     and_then (get atag ''title'') (\<lambda>job_title.
     and_then (text_strip (find_first card' ''span'' [(''class'', ''company'')])) (\<lambda>company.
     and_then (get (find_first card' ''div'' [(''class'', ''recJobLoc'')]) ''data-rc-loc'') (\<lambda>job_location.
     and_then (text_strip (find_first card' ''div'' [(''class'', ''summary'')])) (\<lambda>job_summary.
     and_then (text_strip (find_first card' ''span'' [(''class'', ''date'')])) (\<lambda>post_date.
     and_then (except_AttributeError
       (text_strip (find_first card' ''span'' [(''class'', ''salarytext'')])) []) (\<lambda>salary.
     and_then (get atag ''href'') (\<lambda>href.
     and_then (str_add ''https://www.indeed.com'' href) (\<lambda>job_url.
     Inr \<lparr>Job_Title = job_title,
          Company = company,
          Location = job_location,
          Date_Posted = post_date,
          Extract_Date = today,
          Job_Description = job_summary,
          Salary = salary,
          Job_Url = job_url\<rparr>))))))))))"

record job_results =
  Search_Results :: string
  Top_10_Listings :: "job_record list"

text \<open>
  \<open>job_opportunities\<close> from the parsed page on: one record for every card found, then
  the last two words of the result count, or the empty string when the page has no
  count.
\<close>

definition search_count :: "node \<Rightarrow> error + string" where
  "search_count soup =
     except_AttributeError
       (and_then (text_strip (find_first soup ''div'' [(''id'', ''searchCountPages'')]))
          (\<lambda>total_jobs.
             let total = (let ws = split total_jobs in drop (length ws - 2) ws)
             in Inr (join '' '' total)))
       []"

definition job_opportunities :: "string \<Rightarrow> node \<Rightarrow> error + job_results" where
  "job_opportunities today soup =
     (let cards = find_all soup ''div'' [(''class'', ''jobsearch-SerpJobCard'')]
      in and_then (for_append (get_record today) cards []) (\<lambda>records.
         and_then (search_count soup) (\<lambda>jobs.
         Inr \<lparr>Search_Results = jobs, Top_10_Listings = records\<rparr>)))"

definition get_url :: "string \<Rightarrow> string \<Rightarrow> string" where
  "get_url position location = ''https://www.indeed.com/jobs?q='' @ position @ ''&l='' @ location"

section \<open>Climate extractor\<close>

text \<open>
  \<open>int\<close> of a str: surrounding whitespace is dropped; then an optional sign and
  decimal digits, where one underscore may stand between two digits.  Anything else
  is a ValueError.
\<close>

definition isdigit :: "char \<Rightarrow> bool" where
  "isdigit c = (let n = (of_char c :: nat) in 48 \<le> n \<and> n \<le> 57)"

fun digits_value :: "nat \<Rightarrow> string \<Rightarrow> nat option" where
  "digits_value acc [] = Some acc"
| "digits_value acc (c # cs) =
     (if isdigit c then digits_value (10 * acc + (of_char c - 48)) cs
      else if c = CHR ''_'' \<and> cs \<noteq> [] \<and> isdigit (hd cs) then digits_value acc cs
      else None)"

definition unsigned :: "string \<Rightarrow> nat option" where
  "unsigned s = (if s \<noteq> [] \<and> isdigit (hd s) then digits_value 0 s else None)"

definition int_of_str :: "string \<Rightarrow> error + int" where
  "int_of_str s =
     (let t = strip s;
          r = (case t of
                 [] \<Rightarrow> None
               | c # cs \<Rightarrow>
                   if c = CHR ''-'' then map_option (\<lambda>n. - int n) (unsigned cs)
                   else if c = CHR ''+'' then map_option int (unsigned cs)
                   else map_option int (unsigned t))
      in case r of None \<Rightarrow> Inl ValueError | Some v \<Rightarrow> Inr v)"

record climate =
  avg_high :: "int list"
  avg_low :: "int list"

definition cell_int :: "node \<Rightarrow> error + int" where
  "cell_int temp = int_of_str (strip (get_text temp))"

text \<open>\<open>get_forecast\<close> from the parsed page on.\<close>

definition get_forecast :: "node \<Rightarrow> error + climate" where
  "get_forecast soup =
     (let high_temp = find_all soup ''td'' [(''class'', ''high text-right'')]
      in and_then (for_append cell_int (take 12 high_temp) []) (\<lambda>avg_high_monthly.
         let low_temp = find_all soup ''td'' [(''class'', ''low text-right'')]
         in and_then (for_append cell_int (take 12 low_temp) []) (\<lambda>avg_low_monthly.
            Inr \<lparr>avg_high = avg_high_monthly, avg_low = avg_low_monthly\<rparr>)))"

section \<open>Fixtures\<close>

text \<open>
  A rental entry in the provider's format, with the pet policy, the description and
  the trailing items left open, and the record extracted from it.
\<close>

definition listing ::
  "real json \<Rightarrow> real json \<Rightarrow> (string \<times> real json) list \<Rightarrow> real json" where
  "listing pet_policy description rest =
     JObj ([(''location'',
              JObj [(''address'',
                JObj [(''coordinate'', JObj [(''lat'', JInt 40), (''lon'', JInt (- 74))]),
                      (''line'', JStr ''1 Main St''),
                      (''city'', JStr ''New York''),
                      (''state'', JStr ''NY'')])]),
            (''pet_policy'', pet_policy),
            (''description'', description),
            (''list_price_max'', JInt 2500)] @ rest)"

definition rooms :: "real json" where
  "rooms = JObj [(''baths_max'', JInt 1), (''beds_max'', JInt 2)]"

definition extras :: "(string \<times> real json) list" where
  "extras = [(''tags'', JArr [JStr ''pool'']), (''photos'', JArr [])]"

definition listed :: "real json \<Rightarrow> real json \<Rightarrow> real rental" where
  "listed cats dogs =
     \<lparr>Latitude = JInt 40, Longitude = JInt (- 74), Street_Address = JStr ''1 Main St'',
      City = JStr ''New York'', State = JStr ''NY'', Bedrooms = JInt 2, Bathrooms = JInt 1,
      Cats_Allowed = cats, Dogs_Allowed = dogs, List_Price = JInt 2500,
      Ammenities = JArr [JStr ''pool''], Photos = JArr []\<rparr>"

text \<open>A climate page: a table of cells, each a \<open>td\<close> with its classes and its text.\<close>

definition cell :: "string list \<Rightarrow> string \<Rightarrow> node" where
  "cell classes s = Tag ''td'' [(''class'', AList classes)] [NavigableString s]"

definition climate_page :: "node list \<Rightarrow> node" where
  "climate_page cells = Tag ''[document]'' [] [Tag ''table'' [] [Tag ''tr'' [] cells]]"

text \<open>
  The title anchor of a card, \<open>card.h2.a\<close>: the first \<open>a\<close> below the first \<open>h2\<close>, if the
  card has both.
\<close>

definition title_anchor :: "node \<Rightarrow> node option" where
  "title_anchor c =
     (case find_first c ''h2'' [] of None \<Rightarrow> None | Some h2 \<Rightarrow> find_first h2 ''a'' [])"

text \<open>The parts of a job card of the results page, a card made of parts, and a page.\<close>

definition title_part :: node where
  "title_part =
     Tag ''h2'' [(''class'', AList [''title''])]
       [Tag ''a'' [(''href'', AStr ''/rc/clk?jk=1''), (''title'', AStr ''Data Scientist'')]
          [NavigableString ''Data Scientist'']]"

definition company_part :: node where
  "company_part = Tag ''span'' [(''class'', AList [''company''])] [NavigableString '' Acme '']"

definition location_part :: node where
  "location_part =
     Tag ''div'' [(''class'', AList [''recJobLoc'']), (''data-rc-loc'', AStr ''New York, NY'')] []"

definition summary_part :: node where
  "summary_part = Tag ''div'' [(''class'', AList [''summary''])] [NavigableString ''Build models.'']"

definition date_part :: node where
  "date_part = Tag ''span'' [(''class'', AList [''date''])] [NavigableString ''3 days ago'']"

definition salary_part :: node where
  "salary_part =
     Tag ''span'' [(''class'', AList [''salaryText''])]
       [Tag ''span'' [(''class'', AList [''salarytext''])] [NavigableString '' $50 an hour '']]"

definition job_card :: "node list \<Rightarrow> node" where
  "job_card parts =
     Tag ''div'' [(''class'', AList [''jobsearch-SerpJobCard'', ''unifiedRow''])] parts"

definition results_page :: "node list \<Rightarrow> node" where
  "results_page cards =
     Tag ''[document]'' []
       [Tag ''div'' [(''id'', AStr ''searchCountPages'')]
          [NavigableString '' Page 1 of 1,234 jobs ''],
        Tag ''td'' [(''id'', AStr ''resultsCol'')] cards]"

definition extracted :: "string \<Rightarrow> string \<Rightarrow> job_record" where
  "extracted today salary =
     \<lparr>Job_Title = Some (AStr ''Data Scientist''), Company = ''Acme'',
      Location = Some (AStr ''New York, NY''), Date_Posted = ''3 days ago'',
      Extract_Date = today, Job_Description = ''Build models.'', Salary = salary,
      Job_Url = ''https://www.indeed.com/rc/clk?jk=1''\<rparr>"

section \<open>Unicode strings\<close>

text \<open>
  City and state names come from the client, so the URL builder is modelled on all of
  Python's \<open>str\<close>: a string is a list of code points.  The tables below are those of
  the Unicode Character Database in version 14.0.0, as \<open>str.isspace\<close> and \<open>str.lower\<close>
  read them.
\<close>

type_synonym codepoint = nat

definition unicode :: "string \<Rightarrow> codepoint list" where
  "unicode s = map of_char s"

abbreviation SPACE :: codepoint where
  "SPACE \<equiv> 32"

abbreviation HYPHEN_MINUS :: codepoint where
  "HYPHEN_MINUS \<equiv> 45"

abbreviation CAPITAL_I_WITH_DOT_ABOVE :: codepoint where
  "CAPITAL_I_WITH_DOT_ABOVE \<equiv> 304"

abbreviation CAPITAL_SIGMA :: codepoint where
  "CAPITAL_SIGMA \<equiv> 931"

abbreviation FINAL_SIGMA :: codepoint where
  "FINAL_SIGMA \<equiv> 962"

abbreviation SMALL_SIGMA :: codepoint where
  "SMALL_SIGMA \<equiv> 963"

text \<open>
  \<open>str.strip\<close> without argument removes the code points for which \<open>str.isspace\<close>
  holds from both ends.
\<close>

definition whitespace :: "codepoint list" where
  "whitespace =
     [9, 10, 11, 12, 13, 28, 29, 30, 31, 32, 133, 160, 5760, 8192, 8193, 8194, 8195, 8196,
      8197, 8198, 8199, 8200, 8201, 8202, 8232, 8233, 8239, 8287, 12288]"

definition str_isspace :: "codepoint \<Rightarrow> bool" where
  "str_isspace c = (c \<in> set whitespace)"

definition str_strip :: "codepoint list \<Rightarrow> codepoint list" where
  "str_strip s = rev (dropWhile str_isspace (rev (dropWhile str_isspace s)))"

text \<open>
  The lowercase mapping of single code points.  A run \<open>(lo, hi, step, target)\<close>
  maps \<open>lo\<close>, \<open>lo + step\<close>, ... up to \<open>hi\<close> to \<open>target\<close>, \<open>target + step\<close>, ...;
  a code point in no run is its own lowercase.  The one code point whose lowercase is
  longer is U+0130, which becomes U+0069 U+0307.
\<close>

type_synonym run = "codepoint \<times> codepoint \<times> nat \<times> codepoint"

definition lowercase_runs :: "run list" where
  "lowercase_runs =
     [(65, 90, 1, 97), (192, 214, 1, 224), (216, 222, 1, 248), (256, 302, 2, 257),
      (306, 310, 2, 307), (313, 327, 2, 314), (330, 374, 2, 331), (376, 376, 1, 255),
      (377, 381, 2, 378), (385, 385, 1, 595), (386, 388, 2, 387), (390, 390, 1, 596),
      (391, 391, 1, 392), (393, 394, 1, 598), (395, 395, 1, 396), (398, 398, 1, 477),
      (399, 399, 1, 601), (400, 400, 1, 603), (401, 401, 1, 402), (403, 403, 1, 608),
      (404, 404, 1, 611), (406, 406, 1, 617), (407, 407, 1, 616), (408, 408, 1, 409),
      (412, 412, 1, 623), (413, 413, 1, 626), (415, 415, 1, 629), (416, 420, 2, 417),
      (422, 422, 1, 640), (423, 423, 1, 424), (425, 425, 1, 643), (428, 428, 1, 429),
      (430, 430, 1, 648), (431, 431, 1, 432), (433, 434, 1, 650), (435, 437, 2, 436),
      (439, 439, 1, 658), (440, 440, 1, 441), (444, 444, 1, 445), (452, 452, 1, 454),
      (453, 453, 1, 454), (455, 455, 1, 457), (456, 456, 1, 457), (458, 458, 1, 460),
      (459, 475, 2, 460), (478, 494, 2, 479), (497, 497, 1, 499), (498, 500, 2, 499),
      (502, 502, 1, 405), (503, 503, 1, 447), (504, 542, 2, 505), (544, 544, 1, 414),
      (546, 562, 2, 547), (570, 570, 1, 11365), (571, 571, 1, 572), (573, 573, 1, 410),
      (574, 574, 1, 11366), (577, 577, 1, 578), (579, 579, 1, 384), (580, 580, 1, 649),
      (581, 581, 1, 652), (582, 590, 2, 583), (880, 882, 2, 881), (886, 886, 1, 887),
      (895, 895, 1, 1011), (902, 902, 1, 940), (904, 906, 1, 941), (908, 908, 1, 972),
      (910, 911, 1, 973), (913, 929, 1, 945), (931, 939, 1, 963), (975, 975, 1, 983),
      (984, 1006, 2, 985), (1012, 1012, 1, 952), (1015, 1015, 1, 1016), (1017, 1017, 1, 1010),
      (1018, 1018, 1, 1019), (1021, 1023, 1, 891), (1024, 1039, 1, 1104),
      (1040, 1071, 1, 1072), (1120, 1152, 2, 1121), (1162, 1214, 2, 1163),
      (1216, 1216, 1, 1231), (1217, 1229, 2, 1218), (1232, 1326, 2, 1233),
      (1329, 1366, 1, 1377), (4256, 4293, 1, 11520), (4295, 4295, 1, 11559),
      (4301, 4301, 1, 11565), (5024, 5103, 1, 43888), (5104, 5109, 1, 5112),
      (7312, 7354, 1, 4304), (7357, 7359, 1, 4349), (7680, 7828, 2, 7681),
      (7838, 7838, 1, 223), (7840, 7934, 2, 7841), (7944, 7951, 1, 7936),
      (7960, 7965, 1, 7952), (7976, 7983, 1, 7968), (7992, 7999, 1, 7984),
      (8008, 8013, 1, 8000), (8025, 8031, 2, 8017), (8040, 8047, 1, 8032),
      (8072, 8079, 1, 8064), (8088, 8095, 1, 8080), (8104, 8111, 1, 8096),
      (8120, 8121, 1, 8112), (8122, 8123, 1, 8048), (8124, 8124, 1, 8115),
      (8136, 8139, 1, 8050), (8140, 8140, 1, 8131), (8152, 8153, 1, 8144),
      (8154, 8155, 1, 8054), (8168, 8169, 1, 8160), (8170, 8171, 1, 8058),
      (8172, 8172, 1, 8165), (8184, 8185, 1, 8056), (8186, 8187, 1, 8060),
      (8188, 8188, 1, 8179), (8486, 8486, 1, 969), (8490, 8490, 1, 107), (8491, 8491, 1, 229),
      (8498, 8498, 1, 8526), (8544, 8559, 1, 8560), (8579, 8579, 1, 8580),
      (9398, 9423, 1, 9424), (11264, 11311, 1, 11312), (11360, 11360, 1, 11361),
      (11362, 11362, 1, 619), (11363, 11363, 1, 7549), (11364, 11364, 1, 637),
      (11367, 11371, 2, 11368), (11373, 11373, 1, 593), (11374, 11374, 1, 625),
      (11375, 11375, 1, 592), (11376, 11376, 1, 594), (11378, 11378, 1, 11379),
      (11381, 11381, 1, 11382), (11390, 11391, 1, 575), (11392, 11490, 2, 11393),
      (11499, 11501, 2, 11500), (11506, 11506, 1, 11507), (42560, 42604, 2, 42561),
      (42624, 42650, 2, 42625), (42786, 42798, 2, 42787), (42802, 42862, 2, 42803),
      (42873, 42875, 2, 42874), (42877, 42877, 1, 7545), (42878, 42886, 2, 42879),
      (42891, 42891, 1, 42892), (42893, 42893, 1, 613), (42896, 42898, 2, 42897),
      (42902, 42920, 2, 42903), (42922, 42922, 1, 614), (42923, 42923, 1, 604),
      (42924, 42924, 1, 609), (42925, 42925, 1, 620), (42926, 42926, 1, 618),
      (42928, 42928, 1, 670), (42929, 42929, 1, 647), (42930, 42930, 1, 669),
      (42931, 42931, 1, 43859), (42932, 42946, 2, 42933), (42948, 42948, 1, 42900),
      (42949, 42949, 1, 642), (42950, 42950, 1, 7566), (42951, 42953, 2, 42952),
      (42960, 42960, 1, 42961), (42966, 42968, 2, 42967), (42997, 42997, 1, 42998),
      (65313, 65338, 1, 65345), (66560, 66599, 1, 66600), (66736, 66771, 1, 66776),
      (66928, 66964, 2, 66967), (66929, 66938, 1, 66968), (66941, 66954, 1, 66980),
      (66957, 66962, 1, 66996), (66965, 66965, 1, 67004), (68736, 68786, 1, 68800),
      (71840, 71871, 1, 71872), (93760, 93791, 1, 93792), (125184, 125217, 1, 125218)]"

fun in_run :: "run \<Rightarrow> codepoint \<Rightarrow> bool" where
  "in_run (lo, hi, step, target) c = (lo \<le> c \<and> c \<le> hi \<and> (c - lo) mod step = 0)"

fun run_image :: "run \<Rightarrow> codepoint \<Rightarrow> codepoint" where
  "run_image (lo, hi, step, target) c = target + (c - lo)"

fun simple_lower :: "run list \<Rightarrow> codepoint \<Rightarrow> codepoint" where
  "simple_lower [] c = c"
| "simple_lower (r # runs) c = (if in_run r c then run_image r c else simple_lower runs c)"

definition to_lower_full :: "codepoint \<Rightarrow> codepoint list" where
  "to_lower_full c =
     (if c = CAPITAL_I_WITH_DOT_ABOVE then [105, 775] else [simple_lower lowercase_runs c])"

text \<open>
  The code points with the properties Cased and Case_Ignorable, as ranges; the rule for
  capital sigma reads them.
\<close>

definition cased_ranges :: "(codepoint \<times> codepoint) list" where
  "cased_ranges =
     [(65, 90), (97, 122), (170, 170), (181, 181), (186, 186), (192, 214), (216, 246),
      (248, 442), (444, 447), (452, 659), (661, 696), (704, 705), (736, 740), (837, 837),
      (880, 883), (886, 887), (890, 893), (895, 895), (902, 902), (904, 906), (908, 908),
      (910, 929), (931, 1013), (1015, 1153), (1162, 1327), (1329, 1366), (1376, 1416),
      (4256, 4293), (4295, 4295), (4301, 4301), (4304, 4346), (4349, 4351), (5024, 5109),
      (5112, 5117), (7296, 7304), (7312, 7354), (7357, 7359), (7424, 7615), (7680, 7957),
      (7960, 7965), (7968, 8005), (8008, 8013), (8016, 8023), (8025, 8025), (8027, 8027),
      (8029, 8029), (8031, 8061), (8064, 8116), (8118, 8124), (8126, 8126), (8130, 8132),
      (8134, 8140), (8144, 8147), (8150, 8155), (8160, 8172), (8178, 8180), (8182, 8188),
      (8305, 8305), (8319, 8319), (8336, 8348), (8450, 8450), (8455, 8455), (8458, 8467),
      (8469, 8469), (8473, 8477), (8484, 8484), (8486, 8486), (8488, 8488), (8490, 8493),
      (8495, 8500), (8505, 8505), (8508, 8511), (8517, 8521), (8526, 8526), (8544, 8575),
      (8579, 8580), (9398, 9449), (11264, 11492), (11499, 11502), (11506, 11507),
      (11520, 11557), (11559, 11559), (11565, 11565), (42560, 42605), (42624, 42653),
      (42786, 42887), (42891, 42894), (42896, 42954), (42960, 42961), (42963, 42963),
      (42965, 42969), (42997, 42998), (43000, 43002), (43824, 43866), (43868, 43880),
      (43888, 43967), (64256, 64262), (64275, 64279), (65313, 65338), (65345, 65370),
      (66560, 66639), (66736, 66771), (66776, 66811), (66928, 66938), (66940, 66954),
      (66956, 66962), (66964, 66965), (66967, 66977), (66979, 66993), (66995, 67001),
      (67003, 67004), (67456, 67456), (67459, 67461), (67463, 67504), (67506, 67514),
      (68736, 68786), (68800, 68850), (71840, 71903), (93760, 93823), (119808, 119892),
      (119894, 119964), (119966, 119967), (119970, 119970), (119973, 119974), (119977, 119980),
      (119982, 119993), (119995, 119995), (119997, 120003), (120005, 120069), (120071, 120074),
      (120077, 120084), (120086, 120092), (120094, 120121), (120123, 120126), (120128, 120132),
      (120134, 120134), (120138, 120144), (120146, 120485), (120488, 120512), (120514, 120538),
      (120540, 120570), (120572, 120596), (120598, 120628), (120630, 120654), (120656, 120686),
      (120688, 120712), (120714, 120744), (120746, 120770), (120772, 120779), (122624, 122633),
      (122635, 122654), (125184, 125251), (127280, 127305), (127312, 127337), (127344, 127369)]"

definition case_ignorable_ranges :: "(codepoint \<times> codepoint) list" where
  "case_ignorable_ranges =
     [(39, 39), (46, 46), (58, 58), (94, 94), (96, 96), (168, 168), (173, 173), (175, 175),
      (180, 180), (183, 184), (688, 879), (884, 885), (890, 890), (900, 901), (903, 903),
      (1155, 1161), (1369, 1369), (1375, 1375), (1425, 1469), (1471, 1471), (1473, 1474),
      (1476, 1477), (1479, 1479), (1524, 1524), (1536, 1541), (1552, 1562), (1564, 1564),
      (1600, 1600), (1611, 1631), (1648, 1648), (1750, 1757), (1759, 1768), (1770, 1773),
      (1807, 1807), (1809, 1809), (1840, 1866), (1958, 1968), (2027, 2037), (2042, 2042),
      (2045, 2045), (2070, 2093), (2137, 2139), (2184, 2184), (2192, 2193), (2200, 2207),
      (2249, 2306), (2362, 2362), (2364, 2364), (2369, 2376), (2381, 2381), (2385, 2391),
      (2402, 2403), (2417, 2417), (2433, 2433), (2492, 2492), (2497, 2500), (2509, 2509),
      (2530, 2531), (2558, 2558), (2561, 2562), (2620, 2620), (2625, 2626), (2631, 2632),
      (2635, 2637), (2641, 2641), (2672, 2673), (2677, 2677), (2689, 2690), (2748, 2748),
      (2753, 2757), (2759, 2760), (2765, 2765), (2786, 2787), (2810, 2815), (2817, 2817),
      (2876, 2876), (2879, 2879), (2881, 2884), (2893, 2893), (2901, 2902), (2914, 2915),
      (2946, 2946), (3008, 3008), (3021, 3021), (3072, 3072), (3076, 3076), (3132, 3132),
      (3134, 3136), (3142, 3144), (3146, 3149), (3157, 3158), (3170, 3171), (3201, 3201),
      (3260, 3260), (3263, 3263), (3270, 3270), (3276, 3277), (3298, 3299), (3328, 3329),
      (3387, 3388), (3393, 3396), (3405, 3405), (3426, 3427), (3457, 3457), (3530, 3530),
      (3538, 3540), (3542, 3542), (3633, 3633), (3636, 3642), (3654, 3662), (3761, 3761),
      (3764, 3772), (3782, 3782), (3784, 3789), (3864, 3865), (3893, 3893), (3895, 3895),
      (3897, 3897), (3953, 3966), (3968, 3972), (3974, 3975), (3981, 3991), (3993, 4028),
      (4038, 4038), (4141, 4144), (4146, 4151), (4153, 4154), (4157, 4158), (4184, 4185),
      (4190, 4192), (4209, 4212), (4226, 4226), (4229, 4230), (4237, 4237), (4253, 4253),
      (4348, 4348), (4957, 4959), (5906, 5908), (5938, 5939), (5970, 5971), (6002, 6003),
      (6068, 6069), (6071, 6077), (6086, 6086), (6089, 6099), (6103, 6103), (6109, 6109),
      (6155, 6159), (6211, 6211), (6277, 6278), (6313, 6313), (6432, 6434), (6439, 6440),
      (6450, 6450), (6457, 6459), (6679, 6680), (6683, 6683), (6742, 6742), (6744, 6750),
      (6752, 6752), (6754, 6754), (6757, 6764), (6771, 6780), (6783, 6783), (6823, 6823),
      (6832, 6862), (6912, 6915), (6964, 6964), (6966, 6970), (6972, 6972), (6978, 6978),
      (7019, 7027), (7040, 7041), (7074, 7077), (7080, 7081), (7083, 7085), (7142, 7142),
      (7144, 7145), (7149, 7149), (7151, 7153), (7212, 7219), (7222, 7223), (7288, 7293),
      (7376, 7378), (7380, 7392), (7394, 7400), (7405, 7405), (7412, 7412), (7416, 7417),
      (7468, 7530), (7544, 7544), (7579, 7679), (8125, 8125), (8127, 8129), (8141, 8143),
      (8157, 8159), (8173, 8175), (8189, 8190), (8203, 8207), (8216, 8217), (8228, 8228),
      (8231, 8231), (8234, 8238), (8288, 8292), (8294, 8303), (8305, 8305), (8319, 8319),
      (8336, 8348), (8400, 8432), (11388, 11389), (11503, 11505), (11631, 11631),
      (11647, 11647), (11744, 11775), (11823, 11823), (12293, 12293), (12330, 12333),
      (12337, 12341), (12347, 12347), (12441, 12446), (12540, 12542), (40981, 40981),
      (42232, 42237), (42508, 42508), (42607, 42610), (42612, 42621), (42623, 42623),
      (42652, 42655), (42736, 42737), (42752, 42785), (42864, 42864), (42888, 42890),
      (42994, 42996), (43000, 43001), (43010, 43010), (43014, 43014), (43019, 43019),
      (43045, 43046), (43052, 43052), (43204, 43205), (43232, 43249), (43263, 43263),
      (43302, 43309), (43335, 43345), (43392, 43394), (43443, 43443), (43446, 43449),
      (43452, 43453), (43471, 43471), (43493, 43494), (43561, 43566), (43569, 43570),
      (43573, 43574), (43587, 43587), (43596, 43596), (43632, 43632), (43644, 43644),
      (43696, 43696), (43698, 43700), (43703, 43704), (43710, 43711), (43713, 43713),
      (43741, 43741), (43756, 43757), (43763, 43764), (43766, 43766), (43867, 43871),
      (43881, 43883), (44005, 44005), (44008, 44008), (44013, 44013), (64286, 64286),
      (64434, 64450), (65024, 65039), (65043, 65043), (65056, 65071), (65106, 65106),
      (65109, 65109), (65279, 65279), (65287, 65287), (65294, 65294), (65306, 65306),
      (65342, 65342), (65344, 65344), (65392, 65392), (65438, 65439), (65507, 65507),
      (65529, 65531), (66045, 66045), (66272, 66272), (66422, 66426), (67456, 67461),
      (67463, 67504), (67506, 67514), (68097, 68099), (68101, 68102), (68108, 68111),
      (68152, 68154), (68159, 68159), (68325, 68326), (68900, 68903), (69291, 69292),
      (69446, 69456), (69506, 69509), (69633, 69633), (69688, 69702), (69744, 69744),
      (69747, 69748), (69759, 69761), (69811, 69814), (69817, 69818), (69821, 69821),
      (69826, 69826), (69837, 69837), (69888, 69890), (69927, 69931), (69933, 69940),
      (70003, 70003), (70016, 70017), (70070, 70078), (70089, 70092), (70095, 70095),
      (70191, 70193), (70196, 70196), (70198, 70199), (70206, 70206), (70367, 70367),
      (70371, 70378), (70400, 70401), (70459, 70460), (70464, 70464), (70502, 70508),
      (70512, 70516), (70712, 70719), (70722, 70724), (70726, 70726), (70750, 70750),
      (70835, 70840), (70842, 70842), (70847, 70848), (70850, 70851), (71090, 71093),
      (71100, 71101), (71103, 71104), (71132, 71133), (71219, 71226), (71229, 71229),
      (71231, 71232), (71339, 71339), (71341, 71341), (71344, 71349), (71351, 71351),
      (71453, 71455), (71458, 71461), (71463, 71467), (71727, 71735), (71737, 71738),
      (71995, 71996), (71998, 71998), (72003, 72003), (72148, 72151), (72154, 72155),
      (72160, 72160), (72193, 72202), (72243, 72248), (72251, 72254), (72263, 72263),
      (72273, 72278), (72281, 72283), (72330, 72342), (72344, 72345), (72752, 72758),
      (72760, 72765), (72767, 72767), (72850, 72871), (72874, 72880), (72882, 72883),
      (72885, 72886), (73009, 73014), (73018, 73018), (73020, 73021), (73023, 73029),
      (73031, 73031), (73104, 73105), (73109, 73109), (73111, 73111), (73459, 73460),
      (78896, 78904), (92912, 92916), (92976, 92982), (92992, 92995), (94031, 94031),
      (94095, 94111), (94176, 94177), (94179, 94180), (110576, 110579), (110581, 110587),
      (110589, 110590), (113821, 113822), (113824, 113827), (118528, 118573), (118576, 118598),
      (119143, 119145), (119155, 119170), (119173, 119179), (119210, 119213), (119362, 119364),
      (121344, 121398), (121403, 121452), (121461, 121461), (121476, 121476), (121499, 121503),
      (121505, 121519), (122880, 122886), (122888, 122904), (122907, 122913), (122915, 122916),
      (122918, 122922), (123184, 123197), (123566, 123566), (123628, 123631), (125136, 125142),
      (125252, 125259), (127995, 127999), (917505, 917505), (917536, 917631), (917760, 917999)]"

definition in_ranges :: "(codepoint \<times> codepoint) list \<Rightarrow> codepoint \<Rightarrow> bool" where
  "in_ranges ranges c = list_ex (\<lambda>(lo, hi). lo \<le> c \<and> c \<le> hi) ranges"

definition cased :: "codepoint \<Rightarrow> bool" where
  "cased c = in_ranges cased_ranges c"

definition case_ignorable :: "codepoint \<Rightarrow> bool" where
  "case_ignorable c = in_ranges case_ignorable_ranges c"

text \<open>
  A capital sigma becomes the final form when, skipping case-ignorable code points, a
  cased one stands before it and none stands after it; \<open>left\<close> and \<open>right\<close> are the
  parts of the original string around it.
\<close>

definition final_sigma :: "codepoint list \<Rightarrow> codepoint list \<Rightarrow> bool" where
  "final_sigma left right =
     (case dropWhile case_ignorable (rev left) of
        [] \<Rightarrow> False
      | c # cs \<Rightarrow>
          cased c \<and>
          (case dropWhile case_ignorable right of [] \<Rightarrow> True | d # ds \<Rightarrow> \<not> cased d))"

text \<open>\<open>str.lower\<close>: the code points are mapped from left to right.\<close>

fun lower_from :: "codepoint list \<Rightarrow> codepoint list \<Rightarrow> codepoint list" where
  "lower_from left [] = []"
| "lower_from left (c # right) =
     (if c = CAPITAL_SIGMA
      then [if final_sigma left right then FINAL_SIGMA else SMALL_SIGMA]
      else to_lower_full c) @ lower_from (left @ [c]) right"

definition lower :: "codepoint list \<Rightarrow> codepoint list" where
  "lower s = lower_from [] s"

section \<open>Climate URL builder\<close>

text \<open>
  The inner loop of \<open>generate_climate_url\<close>: the string is turned into a list, and
  \<open>enumerate\<close> walks its indices; each position holding a space is overwritten with a
  hyphen.
\<close>

definition replace_spaces :: "codepoint list \<Rightarrow> codepoint list" where
  "replace_spaces input_str_list =
     fold (\<lambda>index l. if l ! index = SPACE then l[index := HYPHEN_MINUS] else l)
       [0..<length input_str_list] input_str_list"

text \<open>The body of the outer loop, run once for the city and once for the state.\<close>

definition clean_input :: "codepoint list \<Rightarrow> codepoint list" where
  "clean_input s =
     (let string = str_strip (lower s)
      in if SPACE \<in> set string then replace_spaces string else string)"

definition generate_climate_url :: "codepoint list \<Rightarrow> codepoint list \<Rightarrow> codepoint list" where
  "generate_climate_url city state =
     (let cleaned_input = map clean_input [city, state]
      in unicode ''https://www.usclimatedata.com/climate/'' @ cleaned_input ! 0 @ unicode ''/''
           @ cleaned_input ! 1 @ unicode ''/united-states/'')"

text \<open>
  The normalisation as the specification words it.  Trimming: \<open>t\<close> is \<open>s\<close> without the
  whitespace around it.  Replacing: every space becomes a hyphen.
\<close>

definition trimmed :: "codepoint list \<Rightarrow> codepoint list \<Rightarrow> bool" where
  "trimmed s t =
     (\<exists>pre post. s = pre @ t @ post \<and> list_all str_isspace pre \<and> list_all str_isspace post \<and>
        (t = [] \<or> (\<not> str_isspace (hd t) \<and> \<not> str_isspace (last t))))"

definition hyphen :: "codepoint \<Rightarrow> codepoint" where
  "hyphen c = (if c = SPACE then HYPHEN_MINUS else c)"

text \<open>
  A check on the runs: what a run produces lies in no run, because it lies below or
  above the other run or falls between its steps, and is not U+0130.
\<close>

fun run_apart :: "run \<Rightarrow> run \<Rightarrow> bool" where
  "run_apart (lo, hi, step, target) (lo', hi', step', target') =
     (target + (hi - lo) < lo' \<or> hi' < target \<or>
      (step' = 2 \<and> (step = 2 \<or> lo = hi) \<and> target mod 2 \<noteq> lo' mod 2))"

definition runs_apart :: "run list \<Rightarrow> bool" where
  "runs_apart runs =
     list_all (\<lambda>r. list_all (run_apart r)
        ((CAPITAL_I_WITH_DOT_ABOVE, CAPITAL_I_WITH_DOT_ABOVE, 1, CAPITAL_I_WITH_DOT_ABOVE) # runs))
       runs"

text \<open>A code point that lowercasing leaves alone.\<close>

definition stable :: "codepoint \<Rightarrow> bool" where
  "stable y = (y \<noteq> CAPITAL_I_WITH_DOT_ABOVE \<and> simple_lower lowercase_runs y = y)"

section \<open>Facts about the loops\<close>

lemma for_append_map:
  "map f xs = map Inr zs \<Longrightarrow> for_append f xs acc = Inr (acc @ zs)"
proof (induction xs arbitrary: acc zs)
  case Nil
  then show ?case by simp
next
  case (Cons x xs)
  then obtain z zs' where zs: "zs = z # zs'" and z: "f x = Inr z" and r: "map f xs = map Inr zs'"
    by (cases zs) auto
  from Cons.IH [OF r, of "acc @ [z]"] show ?case by (simp add: zs z)
qed

lemma for_append_InrD:
  "for_append f xs acc = Inr ys \<Longrightarrow> \<exists>zs. map f xs = map Inr zs \<and> ys = acc @ zs"
proof (induction xs arbitrary: acc)
  case Nil
  then show ?case by simp
next
  case (Cons x xs)
  then obtain y where y: "f x = Inr y" and r: "for_append f xs (acc @ [y]) = Inr ys"
    by (auto split: sum.splits)
  from Cons.IH [OF r] obtain zs where "map f xs = map Inr zs" "ys = (acc @ [y]) @ zs" by blast
  then have "map f (x # xs) = map Inr (y # zs) \<and> ys = acc @ (y # zs)" using y by simp
  then show ?case by blast
qed

lemma for_append_InlD:
  "for_append f xs acc = Inl e \<Longrightarrow> \<exists>x\<in>set xs. f x = Inl e"
  by (induction xs arbitrary: acc) (auto split: sum.splits)

lemma for_append_first_failure:
  "map f ps = map Inr zs \<Longrightarrow> f x = Inl e \<Longrightarrow> for_append f (ps @ x # rest) acc = Inl e"
proof (induction ps arbitrary: acc zs)
  case Nil
  then show ?case by simp
next
  case (Cons p ps)
  then obtain z zs' where z: "f p = Inr z" and r: "map f ps = map Inr zs'"
    by (cases zs) auto
  from Cons.IH [OF r Cons.prems(2), of "acc @ [z]"] show ?case by (simp add: z)
qed

lemma for_append_failure:
  "x \<in> set xs \<Longrightarrow> f x = Inl e \<Longrightarrow> \<exists>e'. for_append f xs acc = Inl e'"
  by (induction xs arbitrary: acc) (auto split: sum.splits)

section \<open>Facts about subscripts and the rental loop\<close>

lemma getitem_Key_not_IndexError: "getitem v (Key k) \<noteq> Inl IndexError"
  by (cases v) (auto split: option.splits)

lemma getpath_Keys_not_IndexError:
  fixes v :: "'f json"
  shows "list_all (\<lambda>k. case k of Key s \<Rightarrow> True | Idx i \<Rightarrow> False) ks \<Longrightarrow>
    getpath v ks \<noteq> Inl IndexError"
proof (induction ks arbitrary: v)
  case Nil
  then show ?case by simp
next
  case (Cons k ks)
  then obtain s where k: "k = Key s" by (cases k) auto
  have "getpath w ks \<noteq> Inl IndexError" for w :: "'f json"
    using Cons by simp
  then show ?case
    using getitem_Key_not_IndexError [of v s]
    by (auto simp add: k and_then_def split: sum.splits)
qed

lemma getpath_in_range:
  "i < length xs \<Longrightarrow> getpath (JArr xs) (Idx (int i) # ks) = getpath (xs ! i) ks"
  by (simp add: and_then_def sequence_item_def)

lemma getpath_out_of_range:
  "length xs \<le> i \<Longrightarrow> getpath (JArr xs) (Idx (int i) # ks) = Inl IndexError"
  by (simp add: and_then_def sequence_item_def)

lemma getpath_entry_not_IndexError:
  "i < length xs \<Longrightarrow> list_all (\<lambda>k. case k of Key s \<Rightarrow> True | Idx i \<Rightarrow> False) ks \<Longrightarrow>
    getpath (JArr xs) (Idx (int i) # ks) \<noteq> Inl IndexError"
  by (simp only: getpath_in_range getpath_Keys_not_IndexError not_False_eq_True)

lemma except_AttributeError_IndexError:
  "except_AttributeError r d = Inl IndexError \<Longrightarrow> r = Inl IndexError"
  by (auto simp add: except_AttributeError_def split: sum.splits if_splits)

lemma and_then_Inl:
  "and_then r f = Inl e \<Longrightarrow> r = Inl e \<or> (\<exists>v. r = Inr v \<and> f v = Inl e)"
  by (auto simp add: and_then_def split: sum.splits)

lemma rental_elements_out_of_range:
  "length xs \<le> i \<Longrightarrow> rental_elements (JArr xs) i = Inl IndexError"
  unfolding rental_elements_def
  by (simp only: getpath_out_of_range and_then_def sum.case)

lemma rental_elements_in_range:
  assumes "i < length xs"
  shows "rental_elements (JArr xs) i \<noteq> Inl IndexError"
proof
  assume a: "rental_elements (JArr xs) i = Inl IndexError"
  have k1: "getpath (JArr xs) [Idx (int i), Key a] \<noteq> Inl IndexError" for a
    using assms by (rule getpath_entry_not_IndexError) simp
  have k2: "getpath (JArr xs) [Idx (int i), Key a, Key b] \<noteq> Inl IndexError" for a b
    using assms by (rule getpath_entry_not_IndexError) simp
  have k3: "getpath (JArr xs) [Idx (int i), Key a, Key b, Key c] \<noteq> Inl IndexError"
    for a b c
    using assms by (rule getpath_entry_not_IndexError) simp
  have k4: "getpath (JArr xs) [Idx (int i), Key a, Key b, Key c, Key d] \<noteq> Inl IndexError"
    for a b c d
    using assms by (rule getpath_entry_not_IndexError) simp
  from a show False
    unfolding rental_elements_def
    by (auto dest!: and_then_Inl except_AttributeError_IndexError
        simp add: k1 k2 k3 k4 simp del: getpath.simps split: if_splits)
qed

lemma and_then_Inr:
  "and_then r f = Inr v \<Longrightarrow> \<exists>w. r = Inr w \<and> f w = Inr v"
  by (auto simp add: and_then_def split: sum.splits)

lemma and_then_InrE:
  "and_then r f = Inr v \<Longrightarrow> (\<And>w. r = Inr w \<Longrightarrow> f w = Inr v \<Longrightarrow> P) \<Longrightarrow> P"
  by (auto simp add: and_then_def split: sum.splits)

lemma getpath_snoc:
  "getpath v (ks @ [k]) = and_then (getpath v ks) (\<lambda>w. getitem w k)"
  by (induction ks arbitrary: v) (auto simp add: and_then_def split: sum.splits)

lemma for_append_nth:
  assumes "for_append f xs [] = Inr ys"
  shows "length ys = length xs \<and> (\<forall>i<length xs. f (xs ! i) = Inr (ys ! i))"
proof -
  from for_append_InrD [OF assms] have m: "map f xs = map Inr ys" by simp
  then have l: "length ys = length xs" by (metis length_map)
  have "f (xs ! i) = Inr (ys ! i)" if "i < length xs" for i
    using m that l by (metis nth_map)
  with l show ?thesis by simp
qed

lemma rental_listing_nth:
  assumes "rental_listing limit response = Inr rs" and "i < length rs"
  shows "rental_elements response i = Inr (rs ! i)"
  using for_append_nth [OF assms(1) [unfolded rental_listing_def]] assms(2) by simp

lemma rental_elements_pet_policy:
  assumes "rental_elements response i = Inr r"
  shows "\<exists>p. getpath response [Idx (int i), Key ''pet_policy''] = Inr p \<and>
     (if p = JNull
      then Cats_Allowed r = JStr ''Unknown'' \<and> Dogs_Allowed r = JStr ''Unknown''
      else getitem p (Key ''cats'') = Inr (Cats_Allowed r) \<and>
           getitem p (Key ''dogs'') = Inr (Dogs_Allowed r))"
proof -
  have c: "getpath response [Idx (int i), Key ''pet_policy'', Key k] =
      and_then (getpath response [Idx (int i), Key ''pet_policy'']) (\<lambda>w. getitem w (Key k))"
    for k
    using getpath_snoc [of response "[Idx (int i), Key ''pet_policy'']" "Key k"] by simp
  from assms show ?thesis
    unfolding rental_elements_def c
    apply (elim and_then_InrE)
    apply (auto simp add: and_then_def simp del: getpath.simps split: if_splits)
    done
qed

section \<open>Rental listings extractor: the claims\<close>

text \<open>
  C1.  The claim: whenever the results array has fewer entries than \<open>limit\<close>, the
  loop of \<open>rental_listing\<close> raises an out-of-range IndexError.  It fails when an entry
  that is present does not extract: the loop reaches that entry before it reaches the
  end of the array, and the KeyError of that entry is what leaves the handler.
\<close>

theorem rental_listing_earlier_error:
  "int (length [listing JNull (JObj [(''beds_max'', JInt 2)]) extras]) < 5
   \<and> rental_listing 5 (JArr [listing JNull (JObj [(''beds_max'', JInt 2)]) extras])
        = Inl (KeyError (Key ''baths_max''))
   \<and> int (length [JObj [] :: real json]) < 5
   \<and> rental_listing 5 (JArr [JObj [] :: real json]) = Inl (KeyError (Key ''location''))"
  by code_simp

text \<open>
  C1, as the code has it.  The loop subscripts the results array at 0 .. limit-1 with
  no guard.  When the array has fewer entries than \<open>limit\<close> the call never returns a
  list, clamped or shortened: it raises.  When every entry present extracts, what it
  raises is the IndexError of the first index past the end; when an entry present
  fails, it is the error of the first such entry, which is never an IndexError.  When
  the array has at least \<open>limit\<close> entries no IndexError occurs.
\<close>

theorem rental_listing_out_of_range:
  "(int (length results) < limit \<longrightarrow>
      (\<exists>e. rental_listing limit (JArr results) = Inl e) \<and>
      ((\<exists>rs. map (rental_elements (JArr results)) [0..<length results] = map Inr rs) \<longrightarrow>
         rental_listing limit (JArr results) = Inl IndexError) \<and>
      (\<forall>i e rs. i < length results \<and>
          map (rental_elements (JArr results)) [0..<i] = map Inr rs \<and>
          rental_elements (JArr results) i = Inl e \<longrightarrow>
         rental_listing limit (JArr results) = Inl e \<and> e \<noteq> IndexError))
   \<and> (limit \<le> int (length results) \<longrightarrow>
         rental_listing limit (JArr results) \<noteq> Inl IndexError)"
proof (intro conjI impI allI)
  let ?n = "length results"
  let ?f = "rental_elements (JArr results)"
  assume lt: "int ?n < limit"
  then have m: "?n < nat limit" by simp
  have split: "[0..<nat limit] = [0..<i] @ i # [Suc i..<nat limit]" if "i < nat limit" for i
  proof -
    have "[0..<nat limit] = [0..<i] @ [i..<nat limit]"
      using that upt_add_eq_append [of 0 i "nat limit - i"] by simp
    then show ?thesis using that by (simp add: upt_conv_Cons)
  qed
  have fail: "?f ?n = Inl IndexError"
    by (rule rental_elements_out_of_range) simp
  have "?n \<in> set [0..<nat limit]" using lt by auto
  then show "\<exists>e. rental_listing limit (JArr results) = Inl e"
    unfolding rental_listing_def using fail by (rule for_append_failure)
  {
    assume "\<exists>rs. map ?f [0..<?n] = map Inr rs"
    then obtain rs where "map ?f [0..<?n] = map Inr rs" ..
    then show "rental_listing limit (JArr results) = Inl IndexError"
      unfolding rental_listing_def split [OF m] using fail by (rule for_append_first_failure)
  }
  {
    fix i e rs
    assume a: "i < ?n \<and> map ?f [0..<i] = map Inr rs \<and> ?f i = Inl e"
    then have i: "i < nat limit" using m by simp
    from a have "map ?f [0..<i] = map Inr rs" and "?f i = Inl e" by simp_all
    then show "rental_listing limit (JArr results) = Inl e"
      unfolding rental_listing_def split [OF i] by (rule for_append_first_failure)
    from a show "e \<noteq> IndexError" using rental_elements_in_range by blast
  }
next
  assume le: "limit \<le> int (length results)"
  show "rental_listing limit (JArr results) \<noteq> Inl IndexError"
  proof
    assume "rental_listing limit (JArr results) = Inl IndexError"
    then obtain i where i: "i \<in> set [0..<nat limit]"
      and e: "rental_elements (JArr results) i = Inl IndexError"
      unfolding rental_listing_def by (blast dest: for_append_InlD)
    from i le have "i < length results" by auto
    then show False using e rental_elements_in_range by blast
  qed
qed

theorem rental_listing_out_of_range_witness:
  "int (length [listing JNull rooms extras]) < 5
   \<and> rental_listing 5 (JArr [listing JNull rooms extras]) = Inl IndexError
   \<and> rental_listing 5 (JArr [listing JNull rooms extras, JObj []])
        = Inl (KeyError (Key ''location''))
   \<and> 1 \<le> int (length [listing JNull rooms extras])
   \<and> rental_listing 1 (JArr [listing JNull rooms extras]) \<noteq> Inl IndexError
   \<and> rental_listing 1 (JArr [listing JNull rooms extras])
        = Inr [listed (JStr ''Unknown'') (JStr ''Unknown'')]"
proof -
  let ?e = "listing JNull rooms extras"
  have "map (rental_elements (JArr [?e])) [0..<length [?e]]
      = map Inr [listed (JStr ''Unknown'') (JStr ''Unknown'')]"
    by code_simp
  then have h: "\<exists>rs. map (rental_elements (JArr [?e])) [0..<length [?e]] = map Inr rs"
    by blast
  have r: "rental_listing 1 (JArr [?e]) = Inr [listed (JStr ''Unknown'') (JStr ''Unknown'')]"
    by code_simp
  have p: "map (rental_elements (JArr [?e, JObj []])) [0..<1]
      = map Inr [listed (JStr ''Unknown'') (JStr ''Unknown'')]"
    by code_simp
  have q: "rental_elements (JArr [?e, JObj []]) 1 = Inl (KeyError (Key ''location''))"
    by code_simp
  have "int (length [?e, JObj []]) < 5" by simp
  with rental_listing_out_of_range [of "[?e, JObj []]" 5]
  have "\<forall>i e rs. i < length [?e, JObj []] \<and>
          map (rental_elements (JArr [?e, JObj []])) [0..<i] = map Inr rs \<and>
          rental_elements (JArr [?e, JObj []]) i = Inl e \<longrightarrow>
         rental_listing 5 (JArr [?e, JObj []]) = Inl e \<and> e \<noteq> IndexError"
    by blast
  from this [rule_format, of 1 "[listed (JStr ''Unknown'') (JStr ''Unknown'')]"
      "KeyError (Key ''location'')"] p q
  have k: "rental_listing 5 (JArr [?e, JObj []]) = Inl (KeyError (Key ''location''))"
    by simp
  show ?thesis
    using rental_listing_out_of_range [of "[?e]" 5] rental_listing_out_of_range [of "[?e]" 1] h r k
    by simp
qed

text \<open>
  C8.  The claim: an entry whose description lacks \<open>baths_max\<close> or \<open>beds_max\<close> yields
  0 for that field, and a failing \<open>tags\<close> or \<open>photos\<close> yields the empty list or
  \<open>None\<close>.  The four \<open>try\<close> blocks catch AttributeError, but a missing key raises
  KeyError: at the entries below the defaults are not applied and the KeyError leaves
  the handler.
\<close>

theorem rental_defaults_not_applied:
  "rental_listing 1 (JArr [listing JNull (JObj [(''beds_max'', JInt 2)]) extras])
     = Inl (KeyError (Key ''baths_max''))
   \<and> rental_listing 1 (JArr [listing JNull (JObj [(''baths_max'', JInt 1)]) extras])
     = Inl (KeyError (Key ''beds_max''))
   \<and> rental_listing 1 (JArr [listing JNull rooms [(''photos'', JArr [])]])
     = Inl (KeyError (Key ''tags''))
   \<and> rental_listing 1 (JArr [listing JNull rooms [(''tags'', JArr [])]])
     = Inl (KeyError (Key ''photos''))"
  by code_simp

text \<open>
  C9.  In every listing returned, when the entry's \<open>pet_policy\<close> is \<open>None\<close> both
  Cats Allowed and Dogs Allowed are the string Unknown, and otherwise they are the
  \<open>cats\<close> and \<open>dogs\<close> values of that object.
\<close>

theorem pet_policy_flags:
  assumes "rental_listing limit response = Inr rs" and "i < length rs"
  shows "\<exists>p. getpath response [Idx (int i), Key ''pet_policy''] = Inr p \<and>
     (if p = JNull
      then Cats_Allowed (rs ! i) = JStr ''Unknown'' \<and> Dogs_Allowed (rs ! i) = JStr ''Unknown''
      else getitem p (Key ''cats'') = Inr (Cats_Allowed (rs ! i)) \<and>
           getitem p (Key ''dogs'') = Inr (Dogs_Allowed (rs ! i)))"
  using rental_listing_nth [OF assms] by (rule rental_elements_pet_policy)

theorem pet_policy_flags_witness:
  "rental_listing 2 (JArr [listing JNull rooms extras,
       listing (JObj [(''cats'', JBool True), (''dogs'', JBool False)]) rooms extras])
     = Inr [listed (JStr ''Unknown'') (JStr ''Unknown''), listed (JBool True) (JBool False)]
   \<and> (\<exists>p. getpath (JArr [listing JNull rooms extras,
       listing (JObj [(''cats'', JBool True), (''dogs'', JBool False)]) rooms extras])
        [Idx (int 1), Key ''pet_policy''] = Inr p \<and>
        getitem p (Key ''cats'') = Inr (JBool True) \<and>
        getitem p (Key ''dogs'') = Inr (JBool False))"
proof -
  let ?r = "JArr [listing JNull rooms extras,
       listing (JObj [(''cats'', JBool True), (''dogs'', JBool False)]) rooms extras]"
  let ?rs = "[listed (JStr ''Unknown'') (JStr ''Unknown''), listed (JBool True) (JBool False)]"
  have r: "rental_listing 2 ?r = Inr ?rs" by code_simp
  have l: "1 < length ?rs" by simp
  have p: "getpath ?r [Idx (int 1), Key ''pet_policy'']
      = Inr (JObj [(''cats'', JBool True), (''dogs'', JBool False)])"
    by code_simp
  show ?thesis
    using pet_policy_flags [OF r l] r p by (simp add: listed_def)
qed

section \<open>Facts about the weather extractor\<close>

lemma getitem_error:
  "getitem v k = Inl e \<Longrightarrow> e = TypeError \<or> e = IndexError \<or> (\<exists>j. e = KeyError j)"
  by (cases v; cases k) (auto split: option.splits)

lemma getpath_error:
  fixes v :: "'f json"
  shows "getpath v ks = Inl e \<Longrightarrow> e = TypeError \<or> e = IndexError \<or> (\<exists>j. e = KeyError j)"
proof (induction ks arbitrary: v)
  case Nil
  then show ?case by simp
next
  case (Cons k ks)
  from Cons.prems have "and_then (getitem v k) (\<lambda>w. getpath w ks) = Inl e" by simp
  from and_then_Inl [OF this]
  consider "getitem v k = Inl e" | w :: "'f json" where "getpath w ks = Inl e"
    by blast
  then show ?case
  proof cases
    case 1
    then show ?thesis by (rule getitem_error)
  next
    case 2
    then show ?thesis by (rule Cons.IH)
  qed
qed

lemma current_weather_error:
  fixes data :: "'f json"
  assumes "current_weather str today data = Inl e"
  shows "e = TypeError \<or> e = IndexError \<or> (\<exists>j. e = KeyError j)"
proof -
  from assms have "\<exists>(v :: 'f json) ks. getpath v ks = Inl e \<or> (\<exists>k. getitem v k = Inl e)"
    unfolding current_weather_def
    by (auto dest!: and_then_Inl simp del: getpath.simps; blast)
  then show ?thesis using getpath_error getitem_error by blast
qed

lemma current_weather_returns:
  assumes "current_weather str today data = Inr r"
  shows "expected_keys_present data"
  using assms unfolding current_weather_def expected_keys_present_def reads_ok_def
  apply (elim and_then_InrE)
  apply (simp add: and_then_def)
  done

lemma first_error_Some:
  "first_error rs = Some e \<Longrightarrow>
   \<exists>n<length rs. rs ! n = Inl e \<and> (\<forall>m<n. \<exists>v. rs ! m = Inr v)"
proof (induction rs)
  case Nil
  then show ?case by simp
next
  case (Cons r rs)
  show ?case
  proof (cases r)
    case (Inl a)
    with Cons.prems have "(r # rs) ! 0 = Inl e" by simp
    then show ?thesis by (intro exI [of _ 0]) simp
  next
    case (Inr v)
    with Cons obtain n where n: "n < length rs" "rs ! n = Inl e" "\<forall>m<n. \<exists>v. rs ! m = Inr v"
      by auto
    have "\<forall>m<Suc n. \<exists>w. (r # rs) ! m = Inr w"
      using n(3) Inr by (auto simp add: nth_Cons split: nat.splits)
    with n show ?thesis by (intro exI [of _ "Suc n"]) simp
  qed
qed

lemma first_error_None:
  "first_error rs = None \<Longrightarrow> \<forall>r\<in>set rs. \<exists>v. r = Inr v"
  by (induction rs) (auto split: sum.splits)

lemma expected_keys_present_first_error:
  "expected_keys_present data = (first_error (map (getpath data) expected_reads) = None)"
  unfolding expected_keys_present_def reads_ok_def expected_reads_def
  by (simp del: getpath.simps split: sum.splits)

lemma current_weather_first_error:
  assumes "first_error (map (getpath data) expected_reads) = Some e"
  shows "current_weather str today data = Inl e"
  using assms unfolding current_weather_def expected_reads_def
  by (auto simp add: and_then_def split: sum.splits)

lemma getpath_failure:
  fixes v :: "'f json"
  shows "getpath v ks = Inl e \<Longrightarrow>
    \<exists>ps k rest w. ks = ps @ k # rest \<and> getpath v ps = Inr w \<and> getitem w k = Inl e"
proof (induction ks arbitrary: v)
  case Nil
  then show ?case by simp
next
  case (Cons k ks)
  from Cons.prems have "and_then (getitem v k) (\<lambda>w. getpath w ks) = Inl e" by simp
  from and_then_Inl [OF this]
  consider "getitem v k = Inl e" | u :: "'f json" where "getitem v k = Inr u" "getpath u ks = Inl e"
    by blast
  then show ?case
  proof cases
    case 1
    then have "k # ks = [] @ k # ks \<and> getpath v [] = Inr v \<and> getitem v k = Inl e" by simp
    then show ?thesis by blast
  next
    case 2
    from Cons.IH [OF 2(2)] obtain ps j rest w where
      "ks = ps @ j # rest" "getpath u ps = Inr w" "getitem w j = Inl e" by blast
    then have "k # ks = (k # ps) @ j # rest \<and> getpath v (k # ps) = Inr w \<and> getitem w j = Inl e"
      using 2(1) by (simp add: and_then_def)
    then show ?thesis by blast
  qed
qed

lemma getitem_failure:
  "getitem w k = Inl e \<Longrightarrow>
   (case w of
      JObj items \<Rightarrow> e = KeyError k \<and> (\<forall>s. k = Key s \<longrightarrow> map_of items s = None)
    | JArr xs \<Rightarrow> (case k of Idx i \<Rightarrow> e = IndexError \<and> sequence_item xs i = None
                            | Key s \<Rightarrow> e = TypeError)
    | JStr cs \<Rightarrow> (case k of Idx i \<Rightarrow> e = IndexError \<and> sequence_item cs i = None
                             | Key s \<Rightarrow> e = TypeError)
    | _ \<Rightarrow> e = TypeError)"
  by (cases w; cases k) (auto split: option.splits)

section \<open>Weather extractor: the claims\<close>

text \<open>
  C3.  The claim: a payload in which an expected key is absent makes the extraction
  fail with a missing-field error that reaches the client as a 502 response.  The
  handler has no \<open>try\<close> and raises no HTTPException: at the empty object it raises
  the KeyError for \<open>main\<close>, which is not an HTTP error with status 502.
\<close>

theorem current_weather_no_502:
  "current_weather (\<lambda>v. ''72.5'') ''11/03/26'' (JObj [] :: real json)
     = Inl (KeyError (Key ''main''))"
  by (simp add: current_weather_def and_then_def)

text \<open>
  C3, as the code has it.  Whenever one of the expected reads fails, the handler
  returns no report and raises what the first failing read raised, in the order in
  which it evaluates them: at the subscript \<open>k\<close> of that read where the value \<open>w\<close>
  reached so far has no such item, a dict gives the KeyError of \<open>k\<close> (for a string
  key, the key is absent from it), a list or a str subscripted by an integer out of
  range gives IndexError, and any other value or kind of subscript gives TypeError.
  The error leaves the handler as it is; no HTTP error response is made of it.
\<close>

theorem current_weather_missing_key:
  assumes "\<not> expected_keys_present data"
  shows "\<exists>n ps k rest w e.
     n < length expected_reads \<and>
     (\<forall>m<n. reads_ok data (expected_reads ! m)) \<and>
     expected_reads ! n = ps @ k # rest \<and>
     getpath data ps = Inr w \<and>
     getitem w k = Inl e \<and>
     current_weather str today data = Inl e \<and>
     (case w of
        JObj items \<Rightarrow> e = KeyError k \<and> (\<forall>s. k = Key s \<longrightarrow> map_of items s = None)
      | JArr xs \<Rightarrow> (case k of Idx i \<Rightarrow> e = IndexError \<and> sequence_item xs i = None
                              | Key s \<Rightarrow> e = TypeError)
      | JStr cs \<Rightarrow> (case k of Idx i \<Rightarrow> e = IndexError \<and> sequence_item cs i = None
                               | Key s \<Rightarrow> e = TypeError)
      | _ \<Rightarrow> e = TypeError)"
proof -
  let ?rs = "map (getpath data) expected_reads"
  from assms obtain e where fe: "first_error ?rs = Some e"
    by (auto simp add: expected_keys_present_first_error)
  from first_error_Some [OF fe] obtain n where
    n: "n < length expected_reads" and f: "getpath data (expected_reads ! n) = Inl e"
    and b: "\<forall>m<n. \<exists>v. ?rs ! m = Inr v"
    by auto
  have ok: "\<forall>m<n. reads_ok data (expected_reads ! m)"
  proof (intro allI impI)
    fix m assume "m < n"
    with b n obtain v where "getpath data (expected_reads ! m) = Inr v" by fastforce
    then show "reads_ok data (expected_reads ! m)" by (simp add: reads_ok_def)
  qed
  from getpath_failure [OF f] obtain ps k rest w where
    d: "expected_reads ! n = ps @ k # rest" "getpath data ps = Inr w" "getitem w k = Inl e"
    by blast
  from current_weather_first_error [OF fe] have c: "current_weather str today data = Inl e" .
  from n ok d c getitem_failure [OF d(3)] show ?thesis by blast
qed

theorem current_weather_missing_key_witness:
  "\<not> expected_keys_present (JObj [(''main'', JObj [(''temp'', JFloat (72.5::real))])])
   \<and> current_weather (\<lambda>v. ''72.5'') ''11/03/26''
        (JObj [(''main'', JObj [(''temp'', JFloat (72.5::real))])])
      = Inl (KeyError (Key ''weather''))
   \<and> \<not> expected_keys_present (JObj [(''main'', JObj []), (''weather'', JArr [])] :: real json)
   \<and> current_weather (\<lambda>v. ''72.5'') ''11/03/26''
        (JObj [(''main'', JObj []), (''weather'', JArr [])] :: real json)
      = Inl IndexError
   \<and> \<not> expected_keys_present
        (JObj [(''main'', JInt 5),
               (''weather'', JArr [JObj [(''description'', JStr ''rain'')]])] :: real json)
   \<and> current_weather (\<lambda>v. ''72.5'') ''11/03/26''
        (JObj [(''main'', JInt 5),
               (''weather'', JArr [JObj [(''description'', JStr ''rain'')]])] :: real json)
      = Inl TypeError"
proof -
  let ?a = "JObj [(''main'', JObj [(''temp'', JFloat (72.5::real))])]"
  let ?b = "JObj [(''main'', JObj []), (''weather'', JArr [])] :: real json"
  let ?c = "JObj [(''main'', JInt 5),
               (''weather'', JArr [JObj [(''description'', JStr ''rain'')]])] :: real json"
  have ha: "\<not> expected_keys_present ?a"
    by (simp add: expected_keys_present_def reads_ok_def and_then_def)
  have hb: "\<not> expected_keys_present ?b"
    by (simp add: expected_keys_present_def reads_ok_def and_then_def sequence_item_def)
  have hc: "\<not> expected_keys_present ?c"
    by (simp add: expected_keys_present_def reads_ok_def and_then_def sequence_item_def)
  have ea: "current_weather (\<lambda>v. ''72.5'') ''11/03/26'' ?a = Inl (KeyError (Key ''weather''))"
    by (simp add: current_weather_def and_then_def)
  have eb: "current_weather (\<lambda>v. ''72.5'') ''11/03/26'' ?b = Inl IndexError"
    by (simp add: current_weather_def and_then_def sequence_item_def)
  have ec: "current_weather (\<lambda>v. ''72.5'') ''11/03/26'' ?c = Inl TypeError"
    by (simp add: current_weather_def and_then_def sequence_item_def)
  from current_weather_missing_key [OF ha, of "\<lambda>v. ''72.5''" "''11/03/26''"]
    current_weather_missing_key [OF hb, of "\<lambda>v. ''72.5''" "''11/03/26''"]
    current_weather_missing_key [OF hc, of "\<lambda>v. ''72.5''" "''11/03/26''"]
    ha hb hc ea eb ec
  show ?thesis by simp
qed

section \<open>Facts about the climate extractor\<close>

lemma for_append_Inr_iff:
  "(for_append f xs [] = Inr ys) = (map f xs = map Inr ys)"
  using for_append_map [of f xs ys "[]"] for_append_InrD [of f xs "[]" ys] by auto

section \<open>Climate extractor: the claims\<close>

text \<open>
  C6.  \<open>get_forecast\<close> returns as \<open>avg_high\<close> the integer values of the first
  \<open>min n 12\<close> cells of class \<open>high text-right\<close> in document order, and as \<open>avg_low\<close>
  those of the cells of class \<open>low text-right\<close>: it returns exactly the two lists \<open>hs\<close>
  and \<open>ls\<close> if and only if these are the integers the first twelve cells of each kind
  hold, and whatever it returns has \<open>min 12 n\<close> values of each kind, so twelve when
  there are twelve cells or more and as many as exist otherwise.
\<close>

theorem get_forecast_first_twelve:
  "(get_forecast soup = Inr \<lparr>avg_high = hs, avg_low = ls\<rparr>)
     = (map cell_int (take 12 (find_all soup ''td'' [(''class'', ''high text-right'')]))
          = map Inr hs
        \<and> map cell_int (take 12 (find_all soup ''td'' [(''class'', ''low text-right'')]))
          = map Inr ls)
   \<and> (get_forecast soup = Inr r \<longrightarrow>
        length (avg_high r)
          = min 12 (length (find_all soup ''td'' [(''class'', ''high text-right'')]))
        \<and> length (avg_low r)
          = min 12 (length (find_all soup ''td'' [(''class'', ''low text-right'')])))"
proof -
  let ?hi = "take 12 (find_all soup ''td'' [(''class'', ''high text-right'')])"
  let ?lo = "take 12 (find_all soup ''td'' [(''class'', ''low text-right'')])"
  have eq: "(get_forecast soup = Inr \<lparr>avg_high = h, avg_low = l\<rparr>)
      = (map cell_int ?hi = map Inr h \<and> map cell_int ?lo = map Inr l)" for h l
    unfolding get_forecast_def Let_def for_append_Inr_iff [symmetric]
    by (auto simp add: and_then_def split: sum.splits)
  have len: "length (avg_high r) = length ?hi \<and> length (avg_low r) = length ?lo"
    if "get_forecast soup = Inr r"
  proof -
    have "r = \<lparr>avg_high = avg_high r, avg_low = avg_low r\<rparr>" by simp
    with that eq [of "avg_high r" "avg_low r"]
    have "map cell_int ?hi = map Inr (avg_high r) \<and> map cell_int ?lo = map Inr (avg_low r)"
      by simp
    then show ?thesis by (metis length_map)
  qed
  show ?thesis using eq [of hs ls] len by (simp add: min.commute)
qed

theorem get_forecast_first_twelve_witness:
  "get_forecast (climate_page
     ([cell [''low'', ''text-right''] ''-3'', cell [''text-right'', ''high''] ''99'',
       cell [''high''] ''98''] @
      map (cell [''high'', ''text-right''])
        ['' 40 '', ''41'', ''42'', ''43'', ''44'', ''45'', ''46'', ''47'', ''48'', ''49'',
         ''50'', ''51'', ''n/a''] @
      [cell [''low'', ''text-right''] ''+1_0'']))
   = Inr \<lparr>avg_high = [40, 41, 42, 43, 44, 45, 46, 47, 48, 49, 50, 51], avg_low = [- 3, 10]\<rparr>
   \<and> length (find_all (climate_page
     ([cell [''low'', ''text-right''] ''-3'', cell [''text-right'', ''high''] ''99'',
       cell [''high''] ''98''] @
      map (cell [''high'', ''text-right''])
        ['' 40 '', ''41'', ''42'', ''43'', ''44'', ''45'', ''46'', ''47'', ''48'', ''49'',
         ''50'', ''51'', ''n/a''] @
      [cell [''low'', ''text-right''] ''+1_0''])) ''td'' [(''class'', ''high text-right'')]) = 13"
proof -
  let ?soup = "climate_page
     ([cell [''low'', ''text-right''] ''-3'', cell [''text-right'', ''high''] ''99'',
       cell [''high''] ''98''] @
      map (cell [''high'', ''text-right''])
        ['' 40 '', ''41'', ''42'', ''43'', ''44'', ''45'', ''46'', ''47'', ''48'', ''49'',
         ''50'', ''51'', ''n/a''] @
      [cell [''low'', ''text-right''] ''+1_0''])"
  have h: "map cell_int (take 12 (find_all ?soup ''td'' [(''class'', ''high text-right'')]))
      = map Inr [40, 41, 42, 43, 44, 45, 46, 47, 48, 49, 50, 51]"
    by code_simp
  have l: "map cell_int (take 12 (find_all ?soup ''td'' [(''class'', ''low text-right'')]))
      = map Inr [- 3, 10]"
    by code_simp
  have n: "length (find_all ?soup ''td'' [(''class'', ''high text-right'')]) = 13"
    by code_simp
  show ?thesis
    using get_forecast_first_twelve
      [of ?soup "[40, 41, 42, 43, 44, 45, 46, 47, 48, 49, 50, 51]" "[- 3, 10]"] h l n
    by simp
qed

section \<open>Facts about the job listings extractor\<close>

lemma child_tag_Inl: "child_tag x name = Inl e \<Longrightarrow> e = AttributeError"
  by (cases "(x, name)" rule: child_tag.cases) auto

lemma get_Inl: "get x key = Inl e \<Longrightarrow> e = AttributeError"
  by (cases "(x, key)" rule: get.cases) auto

lemma text_strip_Inl: "text_strip x = Inl e \<Longrightarrow> e = AttributeError"
  by (cases x) auto

lemma text_strip_Inr: "text_strip x = Inr s \<Longrightarrow> \<exists>t. x = Some t \<and> s = strip (get_text t)"
  by (cases x) auto

lemma get_Inr: "get x key = Inr v \<Longrightarrow> x \<noteq> None"
  by (cases x) auto

lemma child_tag_title_anchor:
  "child_tag (Some c) ''h2'' = Inr h2 \<Longrightarrow> child_tag h2 ''a'' = Inr atag \<Longrightarrow> title_anchor c = atag"
  by (cases c; cases h2; cases "the h2") (auto simp add: title_anchor_def)

lemma except_text_strip:
  "\<exists>s. except_AttributeError (text_strip x) [] = Inr s"
  by (cases x) (auto simp add: except_AttributeError_def)

lemma get_record_Inr:
  assumes "get_record today c = Inr r"
  shows "title_anchor c \<noteq> None \<and>
    find_first c ''span'' [(''class'', ''company'')] \<noteq> None \<and>
    find_first c ''div'' [(''class'', ''recJobLoc'')] \<noteq> None \<and>
    find_first c ''div'' [(''class'', ''summary'')] \<noteq> None \<and>
    find_first c ''span'' [(''class'', ''date'')] \<noteq> None"
  using assms unfolding get_record_def
  apply (elim and_then_InrE)
  apply (auto dest!: text_strip_Inr get_Inr dest: child_tag_title_anchor)
  done

lemma get_record_Inl:
  assumes "get_record today c = Inl e" and "e \<noteq> AttributeError"
  shows "title_anchor c \<noteq> None \<and>
    find_first c ''span'' [(''class'', ''company'')] \<noteq> None \<and>
    find_first c ''div'' [(''class'', ''recJobLoc'')] \<noteq> None \<and>
    find_first c ''div'' [(''class'', ''summary'')] \<noteq> None \<and>
    find_first c ''span'' [(''class'', ''date'')] \<noteq> None"
proof -
  from assms(1) have "\<exists>h2 atag t co lo su da.
      child_tag (Some c) ''h2'' = Inr h2 \<and> child_tag h2 ''a'' = Inr atag \<and>
      get atag ''title'' = Inr t \<and>
      text_strip (find_first c ''span'' [(''class'', ''company'')]) = Inr co \<and>
      get (find_first c ''div'' [(''class'', ''recJobLoc'')]) ''data-rc-loc'' = Inr lo \<and>
      text_strip (find_first c ''div'' [(''class'', ''summary'')]) = Inr su \<and>
      text_strip (find_first c ''span'' [(''class'', ''date'')]) = Inr da"
    unfolding get_record_def
    using assms(2) except_text_strip
    by (auto dest!: and_then_Inl dest: child_tag_Inl get_Inl text_strip_Inl)
  then show ?thesis
    by (auto dest!: text_strip_Inr get_Inr dest: child_tag_title_anchor)
qed

lemma find_first_below_Tag:
  "find_first c name attrs = Some t \<Longrightarrow> \<exists>n as cs. c = Tag n as cs"
  by (cases c) (auto simp add: find_first_def find_all_def)

lemma job_opportunities_all_cards:
  assumes "job_opportunities today soup = Inr r"
  shows "length (Top_10_Listings r)
    = length (find_all soup ''div'' [(''class'', ''jobsearch-SerpJobCard'')])"
proof -
  from assms obtain records jobs where
    f: "for_append (get_record today)
          (find_all soup ''div'' [(''class'', ''jobsearch-SerpJobCard'')]) [] = Inr records"
    and r: "r = \<lparr>Search_Results = jobs, Top_10_Listings = records\<rparr>"
    unfolding job_opportunities_def Let_def
    by (auto simp add: and_then_def split: sum.splits)
  from for_append_nth [OF f] r show ?thesis by simp
qed

section \<open>Job listings extractor: the claims\<close>

text \<open>
  C2.  The claim: \<open>job_opportunities\<close> returns at most ten listings, the first ten cards
  in document order.  The docstring promises the first ten and the result is keyed
  Top 10 Listings, but the loop runs over every card found and nothing slices the
  list: a page with eleven cards yields eleven listings.
\<close>

theorem job_opportunities_eleven:
  "job_opportunities ''2021-03-01''
     (results_page (replicate 11
        (job_card [title_part, company_part, location_part, summary_part, date_part, salary_part])))
   = Inr \<lparr>Search_Results = ''1,234 jobs'',
          Top_10_Listings = replicate 11 (extracted ''2021-03-01'' ''$50 an hour'')\<rparr>
   \<and> length (replicate 11 (extracted ''2021-03-01'' ''$50 an hour'')) = 11"
  by code_simp

text \<open>
  C7.  For a card whose salary element is absent, \<open>get_record\<close> gives the empty
  string as Salary and extracts the other fields of the card as usual: with the title
  anchor and its href, the company, location, summary and date elements in place it
  returns the record of their values, and whatever record it returns has the empty
  Salary.  The failed salary lookup never aborts the extraction.
\<close>

theorem get_record_without_salary:
  assumes "find_first card' ''span'' [(''class'', ''salarytext'')] = None"
  shows "(find_first card' ''h2'' [] = Some h2
      \<and> find_first h2 ''a'' [] = Some (Tag aname attrs acontents)
      \<and> map_of attrs ''href'' = Some (AStr href)
      \<and> find_first card' ''span'' [(''class'', ''company'')] = Some company_span
      \<and> find_first card' ''div'' [(''class'', ''recJobLoc'')] = Some (Tag lname lattrs lcontents)
      \<and> find_first card' ''div'' [(''class'', ''summary'')] = Some summary_div
      \<and> find_first card' ''span'' [(''class'', ''date'')] = Some date_span
      \<longrightarrow> get_record today card' =
            Inr \<lparr>Job_Title = map_of attrs ''title'',
                 Company = strip (get_text company_span),
                 Location = map_of lattrs ''data-rc-loc'',
                 Date_Posted = strip (get_text date_span),
                 Extract_Date = today,
                 Job_Description = strip (get_text summary_div),
                 Salary = [],
                 Job_Url = ''https://www.indeed.com'' @ href\<rparr>)
    \<and> (\<forall>r. get_record today card' = Inr r \<longrightarrow> Salary r = [])"
proof (intro conjI impI allI)
  assume p: "find_first card' ''h2'' [] = Some h2
      \<and> find_first h2 ''a'' [] = Some (Tag aname attrs acontents)
      \<and> map_of attrs ''href'' = Some (AStr href)
      \<and> find_first card' ''span'' [(''class'', ''company'')] = Some company_span
      \<and> find_first card' ''div'' [(''class'', ''recJobLoc'')] = Some (Tag lname lattrs lcontents)
      \<and> find_first card' ''div'' [(''class'', ''summary'')] = Some summary_div
      \<and> find_first card' ''span'' [(''class'', ''date'')] = Some date_span"
  then obtain cn cas ccs where c: "card' = Tag cn cas ccs"
    using find_first_below_Tag by blast
  from p obtain hn has hcs where h: "h2 = Tag hn has hcs"
    using find_first_below_Tag by blast
  show "get_record today card' =
            Inr \<lparr>Job_Title = map_of attrs ''title'',
                 Company = strip (get_text company_span),
                 Location = map_of lattrs ''data-rc-loc'',
                 Date_Posted = strip (get_text date_span),
                 Extract_Date = today,
                 Job_Description = strip (get_text summary_div),
                 Salary = [],
                 Job_Url = ''https://www.indeed.com'' @ href\<rparr>"
    using p assms unfolding get_record_def c h
    by (simp add: and_then_def except_AttributeError_def)
next
  fix r
  assume "get_record today card' = Inr r"
  then show "Salary r = []"
    using assms unfolding get_record_def
    apply (elim and_then_InrE)
    apply (auto simp add: except_AttributeError_def)
    done
qed

theorem get_record_without_salary_witness:
  "find_first (job_card [title_part, company_part, location_part, summary_part, date_part])
      ''span'' [(''class'', ''salarytext'')] = None
   \<and> get_record ''2021-03-01''
        (job_card [title_part, company_part, location_part, summary_part, date_part])
      = Inr (extracted ''2021-03-01'' [])"
proof -
  let ?c = "job_card [title_part, company_part, location_part, summary_part, date_part]"
  have s: "find_first ?c ''span'' [(''class'', ''salarytext'')] = None" by code_simp
  have 1: "find_first ?c ''h2'' [] = Some title_part" by code_simp
  have 2: "find_first title_part ''a'' [] =
      Some (Tag ''a'' [(''href'', AStr ''/rc/clk?jk=1''), (''title'', AStr ''Data Scientist'')]
          [NavigableString ''Data Scientist''])" by code_simp
  have 3: "find_first ?c ''span'' [(''class'', ''company'')] = Some company_part" by code_simp
  have 4: "find_first ?c ''div'' [(''class'', ''recJobLoc'')] =
      Some (Tag ''div'' [(''class'', AList [''recJobLoc'']), (''data-rc-loc'', AStr ''New York, NY'')] [])"
    by code_simp
  have 5: "find_first ?c ''div'' [(''class'', ''summary'')] = Some summary_part" by code_simp
  have 6: "find_first ?c ''span'' [(''class'', ''date'')] = Some date_part" by code_simp
  have 7: "strip (get_text company_part) = ''Acme''" by code_simp
  have 8: "strip (get_text date_part) = ''3 days ago''" by code_simp
  have 9: "strip (get_text summary_part) = ''Build models.''" by code_simp
  from get_record_without_salary [OF s, of title_part "''a''"
      "[(''href'', AStr ''/rc/clk?jk=1''), (''title'', AStr ''Data Scientist'')]"
      "[NavigableString ''Data Scientist'']" "''/rc/clk?jk=1''" company_part
      "''div''" "[(''class'', AList [''recJobLoc'']), (''data-rc-loc'', AStr ''New York, NY'')]"
      "[]" summary_part date_part "''2021-03-01''"]
  show ?thesis
    using s 1 2 3 4 5 6 by (simp add: 7 8 9 extracted_def)
qed

text \<open>
  C10.  Salary is the only element whose absence is tolerated.  A card that lacks the
  title anchor, the company span, the location div, the summary div or the date span
  makes \<open>get_record\<close> raise AttributeError, and since \<open>job_opportunities\<close> calls
  \<open>get_record\<close> on every card with no recovery, a page holding such a card yields an
  error and no listing at all.
\<close>

theorem get_record_missing_element:
  assumes "title_anchor card' = None
    \<or> find_first card' ''span'' [(''class'', ''company'')] = None
    \<or> find_first card' ''div'' [(''class'', ''recJobLoc'')] = None
    \<or> find_first card' ''div'' [(''class'', ''summary'')] = None
    \<or> find_first card' ''span'' [(''class'', ''date'')] = None"
  shows "get_record today card' = Inl AttributeError
    \<and> (card' \<in> set (find_all soup ''div'' [(''class'', ''jobsearch-SerpJobCard'')])
         \<longrightarrow> (\<exists>e. job_opportunities today soup = Inl e))"
proof
  show a: "get_record today card' = Inl AttributeError"
  proof (cases "get_record today card'")
    case (Inl e)
    with assms get_record_Inl [of today card' e] show ?thesis by blast
  next
    case (Inr r)
    with assms get_record_Inr [of today card' r] show ?thesis by blast
  qed
  show "card' \<in> set (find_all soup ''div'' [(''class'', ''jobsearch-SerpJobCard'')])
      \<longrightarrow> (\<exists>e. job_opportunities today soup = Inl e)"
  proof
    assume "card' \<in> set (find_all soup ''div'' [(''class'', ''jobsearch-SerpJobCard'')])"
    from for_append_failure [of card' _ "get_record today" AttributeError "[]", OF this a]
    show "\<exists>e. job_opportunities today soup = Inl e"
      by (auto simp add: job_opportunities_def and_then_def)
  qed
qed

theorem get_record_missing_element_witness:
  "find_first (job_card [title_part, location_part, summary_part, date_part, salary_part])
      ''span'' [(''class'', ''company'')] = None
   \<and> get_record ''2021-03-01''
        (job_card [title_part, location_part, summary_part, date_part, salary_part])
      = Inl AttributeError
   \<and> job_card [title_part, location_part, summary_part, date_part, salary_part]
      \<in> set (find_all
          (results_page
            [job_card [title_part, company_part, location_part, summary_part, date_part],
             job_card [title_part, location_part, summary_part, date_part, salary_part]])
          ''div'' [(''class'', ''jobsearch-SerpJobCard'')])
   \<and> (\<exists>e. job_opportunities ''2021-03-01''
          (results_page
            [job_card [title_part, company_part, location_part, summary_part, date_part],
             job_card [title_part, location_part, summary_part, date_part, salary_part]])
        = Inl e)"
proof -
  let ?bad = "job_card [title_part, location_part, summary_part, date_part, salary_part]"
  let ?soup = "results_page
            [job_card [title_part, company_part, location_part, summary_part, date_part], ?bad]"
  have h: "find_first ?bad ''span'' [(''class'', ''company'')] = None" by code_simp
  have m: "?bad \<in> set (find_all ?soup ''div'' [(''class'', ''jobsearch-SerpJobCard'')])"
    by code_simp
  show ?thesis
    using get_record_missing_element [of ?bad "''2021-03-01''" ?soup] h m by simp
qed

end
